theory Spec2Isabelle
  imports Complex_Main "HOL-Library.Word" "HOL-Library.Sublist"
begin

section \<open>Domain error model (internal/models/errors.go)\<close>

text \<open>
  The error codes are Go string constants. The datatype lists them in the order of the
  source; \<open>code_text\<close> gives the string each constant stands for, which is what
  \<open>DomainError.Error\<close> prints.
\<close>

datatype ErrorCode =
    CodeAccountNotFound
  | CodeInsufficientBalance
  | CodeInvalidAmount
  | CodeCurrencyMismatch
  | CodeSameAccount
  | CodeTransferNotFound
  | CodeAccountAlreadyExists
  | CodeDuplicateTransaction
  | CodeDatabaseError
  | CodeTransactionFailed
  | CodeInternalError

fun code_text :: "ErrorCode \<Rightarrow> string" where
  "code_text CodeAccountNotFound = ''account_not_found''"
| "code_text CodeInsufficientBalance = ''insufficient_balance''"
| "code_text CodeInvalidAmount = ''invalid_amount''"
| "code_text CodeCurrencyMismatch = ''currency_mismatch''"
| "code_text CodeSameAccount = ''same_account''"
| "code_text CodeTransferNotFound = ''transaction_not_found''"
| "code_text CodeAccountAlreadyExists = ''account_exists''"
| "code_text CodeDuplicateTransaction = ''duplicate_transaction''"
| "code_text CodeDatabaseError = ''database_error''"
| "code_text CodeTransactionFailed = ''transaction_failed''"
| "code_text CodeInternalError = ''internal_error''"

text \<open>
  A Go \<open>error\<close> value is either a \<open>*DomainError\<close> (code, message, optional cause) or
  any other error (\<open>errors.New\<close>, \<open>fmt.Errorf\<close>, a driver error, a context error),
  of which the engine only ever reads the text. The nil error is \<open>None\<close> of
  \<open>error option\<close>.
\<close>

datatype error =
    DomainError ErrorCode string "error option"
  | OtherError string

fun Error :: "error \<Rightarrow> string" where
  "Error (DomainError c m (Some cause)) = code_text c @ '': '' @ m @ '': '' @ Error cause"
| "Error (DomainError c m None) = code_text c @ '': '' @ m"
| "Error (OtherError s) = s"

definition NewDomainError :: "ErrorCode \<Rightarrow> string \<Rightarrow> error" where
  "NewDomainError code message = DomainError code message None"

definition WrapError :: "ErrorCode \<Rightarrow> string \<Rightarrow> error option \<Rightarrow> error" where
  "WrapError code message cause = DomainError code message cause"

definition ErrAccountNotFound :: error where
  "ErrAccountNotFound = DomainError CodeAccountNotFound ''account not found'' None"

definition ErrInsufficientBalance :: error where
  "ErrInsufficientBalance =
     DomainError CodeInsufficientBalance ''insufficient balance for this transaction'' None"

definition ErrInvalidAmount :: error where
  "ErrInvalidAmount =
     DomainError CodeInvalidAmount ''amount must be a positive decimal value'' None"

definition ErrSameAccount :: error where
  "ErrSameAccount =
     DomainError CodeSameAccount ''source and destination accounts cannot be the same'' None"

section \<open>Data model (internal/models)\<close>

text \<open>
  \<open>decimal.Decimal\<close> is an exact, arbitrary-precision decimal number; it is modelled
  by the rational number it denotes, so that \<open>Add\<close>, \<open>Sub\<close>, \<open>LessThan\<close> and
  \<open>LessThanOrEqual\<close> are \<open>+\<close>, \<open>-\<close>, \<open><\<close> and \<open>\<le>\<close>. Account ids are
  \<open>int64\<close>; they are only compared, never computed with, and are modelled by
  \<open>int\<close>. The time stamps of accounts and transactions are never read by the engine
  and are left out.
\<close>

record Account =
  AccountID :: int
  Balance :: rat

record Transaction =
  TransactionID :: int
  SourceAccountID :: int
  DestinationAccountID :: int
  Amount :: rat

record CreateTransactionRequest =
  ReqSourceAccountID :: int
  ReqDestinationAccountID :: int
  ReqAmount :: string

text \<open>
  \<open>TransferServiceConfig\<close>: \<open>MaxRetries\<close> is a Go \<open>int\<close>, used only as the bound of
  the attempt counter (the counter cannot wrap unless \<open>MaxRetries\<close> is the largest
  \<open>int\<close>); \<open>RetryBaseDelay\<close> is a \<open>time.Duration\<close>, a signed 64-bit count of
  nanoseconds whose arithmetic wraps around.
\<close>

record TransferServiceConfig =
  MaxRetries :: int
  RetryBaseDelay :: "64 word"

definition DefaultTransferConfig :: TransferServiceConfig where
  "DefaultTransferConfig = \<lparr>MaxRetries = 3, RetryBaseDelay = 100 * 1000000\<rparr>"

section \<open>Collaborators: the store port, the context and the decimal library\<close>

text \<open>
  The engine talks to the store only through the repository interfaces
  (internal/interfaces) and the \<open>pgx.Tx\<close> handle. Every call the engine makes is
  recorded, with its arguments and its answer, in a trace of events, oldest first.
  The collaborators are modelled by a record of functions that answer a call from the
  trace of everything that happened before it: this covers every store, stateful or
  failing, and every interleaving with other callers, since one run sees one sequence
  of answers. \<open>Sleep\<close> records a backoff wait and how it ended, \<open>AttemptDone\<close> what
  \<open>executeTransfer\<close> returned to the retry loop.
\<close>

datatype ctx_err = Canceled | DeadlineExceeded

fun ctxErr :: "ctx_err \<Rightarrow> error" where
  "ctxErr Canceled = OtherError ''context canceled''"
| "ctxErr DeadlineExceeded = OtherError ''context deadline exceeded''"

datatype event =
    BeginTxCall "error option"
  | GetByIDForUpdateCall int "error + Account"
  | UpdateBalanceCall int rat "error option"
  | CreateCall Transaction "error + int"
  | CommitCall "error option"
  | RollbackCall "error option"
  | GetByAccountIDCall int int int "error + Transaction list"
  | Sleep "64 word" "ctx_err option"
  | AttemptDone "error + Transaction"

text \<open>
  \<open>BeginTx\<close>, \<open>GetByIDForUpdate\<close>, \<open>UpdateBalance\<close>: \<open>AccountRepository\<close>.
  \<open>GetByIDForUpdate\<close> answers with an error or with an account, as the interface
  promises (a nil account without an error is not an answer of the model).
  \<open>Create\<close>, \<open>GetByAccountID\<close>: \<open>TransactionRepository\<close>; \<open>Create\<close> answers with
  the identifier the store assigned. \<open>Commit\<close>, \<open>Rollback\<close>: \<open>pgx.Tx\<close>.
  \<open>Wait d\<close> is the \<open>select\<close> between \<open>time.After d\<close> and \<open>ctx.Done\<close>: \<open>None\<close>
  when the timer fires, \<open>Some c\<close> when the context is done first, \<open>ctxErr c\<close> being
  \<open>ctx.Err()\<close>. \<open>NewFromString\<close> is \<open>decimal.NewFromString\<close>, \<open>Quote\<close> the
  \<open>%q\<close> verb of \<open>fmt\<close> and \<open>MapUnicodeToLower\<close> the function
  \<open>strings.Map(unicode.ToLower, s)\<close> that \<open>strings.ToLower\<close> falls back on for a
  text that is not ASCII.
\<close>

record World =
  BeginTx :: "event list \<Rightarrow> error option"
  GetByIDForUpdate :: "event list \<Rightarrow> int \<Rightarrow> error + Account"
  UpdateBalance :: "event list \<Rightarrow> int \<Rightarrow> rat \<Rightarrow> error option"
  Create :: "event list \<Rightarrow> Transaction \<Rightarrow> error + int"
  Commit :: "event list \<Rightarrow> error option"
  Rollback :: "event list \<Rightarrow> error option"
  GetByAccountID :: "event list \<Rightarrow> int \<Rightarrow> int \<Rightarrow> int \<Rightarrow> error + Transaction list"
  Wait :: "event list \<Rightarrow> 64 word \<Rightarrow> ctx_err option"
  NewFromString :: "string \<Rightarrow> error + rat"
  Quote :: "string \<Rightarrow> string"
  MapUnicodeToLower :: "string \<Rightarrow> string"

section \<open>The retry classifier (internal/models/errors.go)\<close>

text \<open>
  \<open>strings.ToLower\<close> as the Go library has it: a text whose bytes are all below
  \<open>utf8.RuneSelf\<close> (128) takes the ASCII path, on which the letters \<open>A\<close> to
  \<open>Z\<close> are mapped to lower case and every other byte is kept; any other text is
  handed to \<open>strings.Map(unicode.ToLower, s)\<close>, which works with the Unicode case
  tables of the library and is the collaborator \<open>MapUnicodeToLower\<close>.
  \<open>strings.Contains\<close> is substring search.
\<close>

definition isASCII :: "char \<Rightarrow> bool" where
  "isASCII c = (of_char c < (128 :: nat))"

definition lower_char :: "char \<Rightarrow> char" where
  "lower_char c =
     (case map_of (zip ''ABCDEFGHIJKLMNOPQRSTUVWXYZ'' ''abcdefghijklmnopqrstuvwxyz'') c of
        Some l \<Rightarrow> l | None \<Rightarrow> c)"

definition ToLower :: "World \<Rightarrow> string \<Rightarrow> string" where
  "ToLower w s = (if list_all isASCII s then map lower_char s else MapUnicodeToLower w s)"

fun Contains :: "string \<Rightarrow> string \<Rightarrow> bool" where
  "Contains [] substr = (substr = [])"
| "Contains (c # s) substr = (prefix substr (c # s) \<or> Contains s substr)"

definition patterns :: "string list" where
  "patterns = [''deadlock'', ''serialize'', ''connection'', ''timeout'']"

definition IsRetryable :: "World \<Rightarrow> error option \<Rightarrow> bool" where
  "IsRetryable w err =
     (case err of
        None \<Rightarrow> False
      | Some e \<Rightarrow> list_ex (\<lambda>p. Contains (ToLower w (Error e)) p) patterns)"

section \<open>Money (internal/models/money.go)\<close>

definition ParseMoney :: "World \<Rightarrow> string \<Rightarrow> error + rat" where
  "ParseMoney w s =
     (if s = [] then Inl (OtherError ''empty amount string'')
      else case NewFromString w s of
             Inl err \<Rightarrow> Inl (OtherError (''invalid decimal '' @ Quote w s @ '': '' @ Error err))
           | Inr d \<Rightarrow> Inr d)"

section \<open>The transfer engine (TransferService)\<close>

text \<open>
  The deferred function of \<open>executeTransfer\<close>: once \<open>BeginTx\<close> has succeeded, every
  return path calls \<open>tx.Rollback\<close> last; its answer is logged and otherwise ignored.
\<close>

definition deferredRollback :: "World \<Rightarrow> 'a \<times> event list \<Rightarrow> 'a \<times> event list" where
  "deferredRollback w out =
     (case out of (res, tr) \<Rightarrow> (res, tr @ [RollbackCall (Rollback w tr)]))"

definition executeTransfer ::
  "World \<Rightarrow> int \<Rightarrow> int \<Rightarrow> rat \<Rightarrow> event list \<Rightarrow> (error + Transaction) \<times> event list" where
  "executeTransfer w sourceID destID amount tr0 =
    (let begun = BeginTx w tr0;
         tr1 = tr0 @ [BeginTxCall begun]
     in case begun of
       Some err \<Rightarrow>
         (Inl (WrapError CodeDatabaseError ''failed to begin transaction'' (Some err)), tr1)
     | None \<Rightarrow> deferredRollback w
        (let firstID = (if sourceID > destID then destID else sourceID);
             secondID = (if sourceID > destID then sourceID else destID);
             r1 = GetByIDForUpdate w tr1 firstID;
             tr2 = tr1 @ [GetByIDForUpdateCall firstID r1]
         in case r1 of
           Inl err \<Rightarrow> (Inl err, tr2)
         | Inr first \<Rightarrow>
            (let r2 = GetByIDForUpdate w tr2 secondID;
                 tr3 = tr2 @ [GetByIDForUpdateCall secondID r2]
             in case r2 of
               Inl err \<Rightarrow> (Inl err, tr3)
             | Inr second \<Rightarrow>
                (let sourceAccount = (if firstID = sourceID then first else second);
                     destAccount = (if firstID = sourceID then second else first)
                 in if Balance sourceAccount < amount then (Inl ErrInsufficientBalance, tr3)
                    else
                     (let newSourceBalance = Balance sourceAccount - amount;
                          newDestBalance = Balance destAccount + amount;
                          u1 = UpdateBalance w tr3 (AccountID sourceAccount) newSourceBalance;
                          tr4 = tr3 @ [UpdateBalanceCall (AccountID sourceAccount) newSourceBalance u1]
                      in case u1 of
                        Some err \<Rightarrow>
                          (Inl (WrapError CodeDatabaseError ''failed to update source balance''
                                 (Some err)), tr4)
                      | None \<Rightarrow>
                         (let u2 = UpdateBalance w tr4 (AccountID destAccount) newDestBalance;
                              tr5 = tr4 @ [UpdateBalanceCall (AccountID destAccount) newDestBalance u2]
                          in case u2 of
                            Some err \<Rightarrow>
                              (Inl (WrapError CodeDatabaseError
                                     ''failed to update destination balance'' (Some err)), tr5)
                          | None \<Rightarrow>
                             (let transaction =
                                    \<lparr>TransactionID = 0, SourceAccountID = sourceID,
                                     DestinationAccountID = destID, Amount = amount\<rparr>;
                                  created = Create w tr5 transaction;
                                  tr6 = tr5 @ [CreateCall transaction created]
                              in case created of
                                Inl err \<Rightarrow>
                                  (Inl (WrapError CodeDatabaseError
                                         ''failed to create transaction record'' (Some err)), tr6)
                              | Inr newID \<Rightarrow>
                                 (let committed = Commit w tr6;
                                      tr7 = tr6 @ [CommitCall committed]
                                  in case committed of
                                    Some err \<Rightarrow>
                                      (Inl (WrapError CodeDatabaseError
                                             ''failed to commit transaction'' (Some err)), tr7)
                                  | None \<Rightarrow>
                                      (Inr (transaction\<lparr>TransactionID := newID\<rparr>), tr7)))))))))"

text \<open>
  The first block of the loop body of \<open>Transfer\<close>: before every attempt but the
  first, wait for the backoff delay or for the context to be done, whichever comes
  first. The delay is computed in \<open>time.Duration\<close>: \<open>1 << uint(attempt-1)\<close> is a
  64-bit shift (0 from 64 bits on) and the product wraps around.
\<close>

definition backoff ::
  "World \<Rightarrow> TransferServiceConfig \<Rightarrow> int \<Rightarrow> event list \<Rightarrow> ctx_err option \<times> event list" where
  "backoff w cfg attempt tr =
    (if attempt > 0 then
       (let delay = RetryBaseDelay cfg * push_bit (nat (attempt - 1)) 1;
            waited = Wait w tr delay
        in (waited, tr @ [Sleep delay waited]))
     else (None, tr))"

text \<open>
  The retry loop, \<open>for attempt := 0; attempt <= MaxRetries; attempt++\<close>, as a
  recursive function of the attempt counter, the last error and the trace.
\<close>

function retryLoop ::
  "World \<Rightarrow> TransferServiceConfig \<Rightarrow> int \<Rightarrow> int \<Rightarrow> rat \<Rightarrow> int \<Rightarrow> error option \<Rightarrow> event list
     \<Rightarrow> (error + Transaction) \<times> event list" where
  "retryLoop w cfg sourceID destID amount attempt lastErr tr =
    (if attempt \<le> MaxRetries cfg then
       (case backoff w cfg attempt tr of
          (Some c, tr1) \<Rightarrow> (Inl (ctxErr c), tr1)
        | (None, tr1) \<Rightarrow>
           (case executeTransfer w sourceID destID amount tr1 of
              (Inr transaction, tr2) \<Rightarrow>
                (Inr transaction, tr2 @ [AttemptDone (Inr transaction)])
            | (Inl err, tr2) \<Rightarrow>
                if \<not> IsRetryable w (Some err) then (Inl err, tr2 @ [AttemptDone (Inl err)])
                else retryLoop w cfg sourceID destID amount (attempt + 1) (Some err)
                       (tr2 @ [AttemptDone (Inl err)])))
     else (Inl (WrapError CodeTransactionFailed ''transfer failed after retries'' lastErr), tr))"
  by pat_completeness auto
termination
  by (relation "measure (\<lambda>(w, cfg, sourceID, destID, amount, attempt, lastErr, tr).
        nat (MaxRetries cfg + 1 - attempt))") auto

definition Transfer ::
  "World \<Rightarrow> TransferServiceConfig \<Rightarrow> CreateTransactionRequest \<Rightarrow> event list
     \<Rightarrow> (error + Transaction) \<times> event list" where
  "Transfer w cfg req tr =
    (if ReqSourceAccountID req = ReqDestinationAccountID req then (Inl ErrSameAccount, tr)
     else case ParseMoney w (ReqAmount req) of
       Inl err \<Rightarrow> (Inl ErrInvalidAmount, tr)
     | Inr amount \<Rightarrow>
         if amount \<le> 0 then (Inl ErrInvalidAmount, tr)
         else retryLoop w cfg (ReqSourceAccountID req) (ReqDestinationAccountID req)
                amount 0 None tr)"

definition DefaultPageSize :: int where "DefaultPageSize = 20"
definition MaxPageSize :: int where "MaxPageSize = 100"

definition GetAccountTransactions ::
  "World \<Rightarrow> int \<Rightarrow> int \<Rightarrow> int \<Rightarrow> event list \<Rightarrow> (error + Transaction list) \<times> event list" where
  "GetAccountTransactions w accountID limit offset tr =
    (let limit1 = (if limit \<le> 0 then DefaultPageSize else limit);
         limit2 = (if limit1 > MaxPageSize then MaxPageSize else limit1);
         offset1 = (if offset < 0 then 0 else offset);
         res = GetByAccountID w tr accountID limit2 offset1
     in (res, tr @ [GetByAccountIDCall accountID limit2 offset1 res]))"


section \<open>Reading a trace\<close>

text \<open>
  What a trace shows: the lock calls with their answers, the accounts the locks
  returned, the balance writes with their answers, the errors the store returned to a
  write, an insert or a commit, the outcomes of the attempts and of the waits.
\<close>

fun lockCalls :: "event list \<Rightarrow> (int \<times> (error + Account)) list" where
  "lockCalls [] = []"
| "lockCalls (GetByIDForUpdateCall i r # tr) = (i, r) # lockCalls tr"
| "lockCalls (e # tr) = lockCalls tr"

fun lockedAccounts :: "event list \<Rightarrow> Account list" where
  "lockedAccounts [] = []"
| "lockedAccounts (GetByIDForUpdateCall i (Inr a) # tr) = a # lockedAccounts tr"
| "lockedAccounts (e # tr) = lockedAccounts tr"

fun balanceUpdates :: "event list \<Rightarrow> (int \<times> rat \<times> error option) list" where
  "balanceUpdates [] = []"
| "balanceUpdates (UpdateBalanceCall i b r # tr) = (i, b, r) # balanceUpdates tr"
| "balanceUpdates (e # tr) = balanceUpdates tr"

fun storeErrors :: "event list \<Rightarrow> error list" where
  "storeErrors [] = []"
| "storeErrors (UpdateBalanceCall i b (Some err) # tr) = err # storeErrors tr"
| "storeErrors (CreateCall t (Inl err) # tr) = err # storeErrors tr"
| "storeErrors (CommitCall (Some err) # tr) = err # storeErrors tr"
| "storeErrors (e # tr) = storeErrors tr"

fun attemptResults :: "event list \<Rightarrow> (error + Transaction) list" where
  "attemptResults [] = []"
| "attemptResults (AttemptDone r # tr) = r # attemptResults tr"
| "attemptResults (e # tr) = attemptResults tr"

fun waitResults :: "event list \<Rightarrow> ctx_err option list" where
  "waitResults [] = []"
| "waitResults (Sleep d c # tr) = c # waitResults tr"
| "waitResults (e # tr) = waitResults tr"

text \<open>
  The error the retry loop holds in \<open>lastErr\<close> after the attempts listed: the error
  of the last attempt, or the initial value when no attempt was made.
\<close>

definition lastObserved :: "error option \<Rightarrow> (error + Transaction) list \<Rightarrow> error option" where
  "lastObserved lastErr rs =
     (if rs = [] then lastErr else case last rs of Inl err \<Rightarrow> Some err | Inr t \<Rightarrow> None)"

section \<open>Test doubles (internal/mocks)\<close>

text \<open>
  \<open>MockAccountRepository\<close> and \<open>MockTransactionRepository\<close> with their injected
  errors, as one record. The account map of the mock is changed by every successful
  \<open>UpdateBalance\<close> at once (\<open>MockTx\<close> commits and rolls back nothing), so its
  content after a trace is the initial map with the logged writes applied. The
  transactions of the mock are those the trace has created, listed here in the order
  of their creation (the mock ranges over a Go map, whose order is not fixed).
  \<open>Ctx\<close> is the context handed to \<open>Transfer\<close>: \<open>None\<close> for
  \<open>context.Background()\<close>, \<open>Some c\<close> for a context that is already done.
  \<open>Decimals\<close> lists the amount texts the decimal library is asked to read, with their
  values; any other text is refused. The error texts of the test doubles are ASCII, so
  that the stand-ins for \<open>Quote\<close> and \<open>MapUnicodeToLower\<close> decide nothing.
\<close>

record Mocks =
  accounts :: "(int \<times> rat) list"
  BeginTxError :: "error option"
  GetByIDForUpdateError :: "error option"
  UpdateBalanceError :: "error option"
  CreateError :: "error option"
  GetByAccountIDError :: "error option"
  Ctx :: "ctx_err option"
  Decimals :: "(string \<times> rat) list"

fun balancesAfter :: "(int \<rightharpoonup> rat) \<Rightarrow> event list \<Rightarrow> (int \<rightharpoonup> rat)" where
  "balancesAfter m [] = m"
| "balancesAfter m (UpdateBalanceCall i b None # tr) = balancesAfter (m(i \<mapsto> b)) tr"
| "balancesAfter m (e # tr) = balancesAfter m tr"

fun createdBefore :: "event list \<Rightarrow> int" where
  "createdBefore [] = 0"
| "createdBefore (CreateCall t (Inr i) # tr) = 1 + createdBefore tr"
| "createdBefore (e # tr) = createdBefore tr"

fun createdTransactions :: "event list \<Rightarrow> Transaction list" where
  "createdTransactions [] = []"
| "createdTransactions (CreateCall t (Inr i) # tr) =
     t\<lparr>TransactionID := i\<rparr> # createdTransactions tr"
| "createdTransactions (e # tr) = createdTransactions tr"

definition mockWorld :: "Mocks \<Rightarrow> World" where
  "mockWorld m =
    \<lparr>BeginTx = (\<lambda>tr. BeginTxError m),
     GetByIDForUpdate = (\<lambda>tr i.
        case GetByIDForUpdateError m of
          Some err \<Rightarrow> Inl err
        | None \<Rightarrow>
           (case balancesAfter (map_of (accounts m)) tr i of
              None \<Rightarrow> Inl ErrAccountNotFound
            | Some b \<Rightarrow> Inr \<lparr>AccountID = i, Balance = b\<rparr>)),
     UpdateBalance = (\<lambda>tr i b.
        case UpdateBalanceError m of
          Some err \<Rightarrow> Some err
        | None \<Rightarrow>
           (case balancesAfter (map_of (accounts m)) tr i of
              None \<Rightarrow> Some ErrAccountNotFound
            | Some old \<Rightarrow> None)),
     Create = (\<lambda>tr t.
        case CreateError m of
          Some err \<Rightarrow> Inl err
        | None \<Rightarrow> Inr (1 + createdBefore tr)),
     Commit = (\<lambda>tr. None),
     Rollback = (\<lambda>tr. None),
     GetByAccountID = (\<lambda>tr accountID limit offset.
        case GetByAccountIDError m of
          Some err \<Rightarrow> Inl err
        | None \<Rightarrow>
           (let result = filter (\<lambda>t. SourceAccountID t = accountID
                                  \<or> DestinationAccountID t = accountID)
                           (createdTransactions tr)
            in if offset \<ge> int (length result) then Inr []
               else Inr (take (nat limit) (drop (nat offset) result)))),
     Wait = (\<lambda>tr d. Ctx m),
     NewFromString = (\<lambda>s.
        case map_of (Decimals m) s of
          None \<Rightarrow> Inl (OtherError ''can't convert to decimal'')
        | Some d \<Rightarrow> Inr d),
     Quote = (\<lambda>s. s),
     MapUnicodeToLower = (\<lambda>s. s)\<rparr>"

text \<open>The set-up of the unit tests: account 1 holds 1000, account 2 holds 500.\<close>

definition testMocks :: Mocks where
  "testMocks =
    \<lparr>accounts = [(1, 1000), (2, 500)],
     BeginTxError = None, GetByIDForUpdateError = None, UpdateBalanceError = None,
     CreateError = None, GetByAccountIDError = None, Ctx = None,
     Decimals = [(''100.00'', 100), (''2000.00'', 2000), (''1000'', 1000), (''0'', 0), (''-5'', -5)]\<rparr>"

section \<open>Properties of the classifier\<close>

lemma Contains_iff: "Contains s p \<longleftrightarrow> (\<exists>a b. s = a @ p @ b)"
proof (induction s)
  case Nil
  then show ?case by auto
next
  case (Cons c s)
  show ?case
  proof
    assume "Contains (c # s) p"
    then consider "prefix p (c # s)" | "Contains s p" by auto
    then show "\<exists>a b. c # s = a @ p @ b"
    proof cases
      case 1
      then obtain b where "c # s = p @ b" by (auto simp: prefix_def)
      then have "c # s = [] @ p @ b" by simp
      then show ?thesis by blast
    next
      case 2
      with Cons obtain a b where "s = a @ p @ b" by blast
      then have "c # s = (c # a) @ p @ b" by simp
      then show ?thesis by blast
    qed
  next
    assume "\<exists>a b. c # s = a @ p @ b"
    then obtain a b where ab: "c # s = a @ p @ b" by blast
    show "Contains (c # s) p"
    proof (cases a)
      case Nil
      with ab have "prefix p (c # s)" by (simp add: prefix_def)
      then show ?thesis by simp
    next
      case (Cons x a')
      with ab have "s = a' @ p @ b" by simp
      with Cons.IH have "Contains s p" by blast
      then show ?thesis by simp
    qed
  qed
qed

section \<open>Shape of the traces\<close>

lemma attemptResults_append:
  "attemptResults (xs @ ys) = attemptResults xs @ attemptResults ys"
  by (induction xs rule: attemptResults.induct) simp_all

lemma waitResults_append: "waitResults (xs @ ys) = waitResults xs @ waitResults ys"
  by (induction xs rule: waitResults.induct) simp_all

text \<open>An attempt only appends to the trace, and appends store calls only.\<close>

lemma executeTransfer_trace:
  assumes "executeTransfer w sourceID destID amount tr = (res, tr')"
  shows "\<exists>evs. tr' = tr @ evs \<and> attemptResults evs = [] \<and> waitResults evs = []"
  using assms
  unfolding executeTransfer_def deferredRollback_def Let_def
  by (auto split: option.splits sum.splits if_splits prod.splits)

lemma backoff_trace:
  assumes "backoff w cfg attempt tr = (waited, tr1)"
  shows "\<exists>evs. tr1 = tr @ evs \<and> attemptResults evs = []
           \<and> waitResults evs = (if attempt > 0 then [waited] else [])"
  using assms unfolding backoff_def Let_def by (auto split: if_splits)

text \<open>One step of the loop: a fatal error ends it, a retryable one starts the next round.\<close>

lemma retryLoop_fatal:
  assumes "attempt \<le> MaxRetries cfg"
    and "backoff w cfg attempt tr = (None, tr1)"
    and "executeTransfer w sourceID destID amount tr1 = (Inl err, tr2)"
    and "\<not> IsRetryable w (Some err)"
  shows "retryLoop w cfg sourceID destID amount attempt lastErr tr =
           (Inl err, tr2 @ [AttemptDone (Inl err)])"
  using assms by (subst retryLoop.simps) simp

lemma retryLoop_retry:
  assumes "attempt \<le> MaxRetries cfg"
    and "backoff w cfg attempt tr = (None, tr1)"
    and "executeTransfer w sourceID destID amount tr1 = (Inl err, tr2)"
    and "IsRetryable w (Some err)"
  shows "retryLoop w cfg sourceID destID amount attempt lastErr tr =
           retryLoop w cfg sourceID destID amount (attempt + 1) (Some err)
             (tr2 @ [AttemptDone (Inl err)])"
  using assms by (subst retryLoop.simps) simp

lemma retryLoop_cancelled:
  assumes "attempt \<le> MaxRetries cfg"
    and "backoff w cfg attempt tr = (Some c, tr1)"
  shows "retryLoop w cfg sourceID destID amount attempt lastErr tr = (Inl (ctxErr c), tr1)"
  using assms by (subst retryLoop.simps) simp

text \<open>
  The loop as a whole, from any round on: the number of attempts is bounded by the
  rounds that are left, and a run in which every attempt failed with a retryable error
  and no wait was cut short used all of them and ends in \<open>TransactionFailed\<close> around
  the last error.
\<close>

lemma retryLoop_exhaust:
  "retryLoop w cfg sourceID destID amount attempt lastErr tr = (res, tr') \<Longrightarrow>
   \<exists>evs. tr' = tr @ evs
     \<and> int (length (attemptResults evs)) \<le> max 0 (MaxRetries cfg + 1 - attempt)
     \<and> ((\<forall>r \<in> set (attemptResults evs). \<exists>err. r = Inl err \<and> IsRetryable w (Some err))
          \<and> (\<forall>c \<in> set (waitResults evs). c = None)
        \<longrightarrow> int (length (attemptResults evs)) = max 0 (MaxRetries cfg + 1 - attempt)
          \<and> res = Inl (WrapError CodeTransactionFailed ''transfer failed after retries''
                        (lastObserved lastErr (attemptResults evs))))"
proof (induction w cfg sourceID destID amount attempt lastErr tr arbitrary: res tr'
        rule: retryLoop.induct)
  case (1 w cfg sourceID destID amount attempt lastErr tr)
  show ?case
  proof (cases "attempt \<le> MaxRetries cfg")
    case False
    with "1.prems"
    have "res = Inl (WrapError CodeTransactionFailed ''transfer failed after retries'' lastErr)"
      and "tr' = tr @ []"
      by (simp_all add: retryLoop.simps)
    with False show ?thesis
      by (intro exI [of _ "[]"]) (simp add: lastObserved_def)
  next
    case True
    obtain waited tr1 where b: "backoff w cfg attempt tr = (waited, tr1)"
      by (cases "backoff w cfg attempt tr")
    from backoff_trace [OF b] obtain evs0 where
      evs0: "tr1 = tr @ evs0" "attemptResults evs0 = []"
        "waitResults evs0 = (if attempt > 0 then [waited] else [])"
      by blast
    show ?thesis
    proof (cases waited)
      case (Some c)
      with True b have "retryLoop w cfg sourceID destID amount attempt lastErr tr
          = (Inl (ctxErr c), tr1)"
        by (simp add: retryLoop_cancelled)
      with "1.prems" have "tr' = tr1" by simp
      moreover from Some b have "attempt > 0"
        by (auto simp: backoff_def Let_def split: if_splits)
      ultimately show ?thesis
        using evs0 Some by (intro exI [of _ evs0]) simp
    next
      case None
      obtain r tr2 where ex: "executeTransfer w sourceID destID amount tr1 = (r, tr2)"
        by (cases "executeTransfer w sourceID destID amount tr1")
      from executeTransfer_trace [OF ex] obtain evs1 where
        evs1: "tr2 = tr1 @ evs1" "attemptResults evs1 = []" "waitResults evs1 = []"
        by blast
      show ?thesis
      proof (cases r)
        case (Inr t)
        with "1.prems" True b None ex have "tr' = tr2 @ [AttemptDone (Inr t)]"
          by (auto simp: retryLoop.simps [of w cfg sourceID destID amount attempt])
        then have "tr' = tr @ (evs0 @ evs1 @ [AttemptDone (Inr t)])"
          using evs0 evs1 by simp
        moreover have "attemptResults (evs0 @ evs1 @ [AttemptDone (Inr t)]) = [Inr t]"
          using evs0 evs1 by (simp add: attemptResults_append)
        ultimately show ?thesis
          using True by (intro exI [of _ "evs0 @ evs1 @ [AttemptDone (Inr t)]"]) simp
      next
        case (Inl err)
        show ?thesis
        proof (cases "IsRetryable w (Some err)")
          case False
          with True b None ex Inl
          have "retryLoop w cfg sourceID destID amount attempt lastErr tr
              = (Inl err, tr2 @ [AttemptDone (Inl err)])"
            by (simp add: retryLoop_fatal)
          with "1.prems" have "tr' = tr2 @ [AttemptDone (Inl err)]" by simp
          then have "tr' = tr @ (evs0 @ evs1 @ [AttemptDone (Inl err)])"
            using evs0 evs1 by simp
          moreover have "attemptResults (evs0 @ evs1 @ [AttemptDone (Inl err)]) = [Inl err]"
            using evs0 evs1 by (simp add: attemptResults_append)
          ultimately show ?thesis
            using True False
            by (intro exI [of _ "evs0 @ evs1 @ [AttemptDone (Inl err)]"]) simp
        next
          case retry: True
          from True b None ex Inl retry
          have "retryLoop w cfg sourceID destID amount attempt lastErr tr
              = retryLoop w cfg sourceID destID amount (attempt + 1) (Some err)
                  (tr2 @ [AttemptDone (Inl err)])"
            by (simp add: retryLoop_retry)
          with "1.prems"
          have rec: "retryLoop w cfg sourceID destID amount (attempt + 1) (Some err)
                  (tr2 @ [AttemptDone (Inl err)]) = (res, tr')"
            by simp
          have "\<exists>evs. tr' = (tr2 @ [AttemptDone (Inl err)]) @ evs
             \<and> int (length (attemptResults evs)) \<le> max 0 (MaxRetries cfg + 1 - (attempt + 1))
             \<and> ((\<forall>r \<in> set (attemptResults evs). \<exists>err. r = Inl err \<and> IsRetryable w (Some err))
                  \<and> (\<forall>c \<in> set (waitResults evs). c = None)
                \<longrightarrow> int (length (attemptResults evs))
                      = max 0 (MaxRetries cfg + 1 - (attempt + 1))
                  \<and> res = Inl (WrapError CodeTransactionFailed ''transfer failed after retries''
                        (lastObserved (Some err) (attemptResults evs))))"
            using "1.IH" [OF True _ _ _ _ _ rec] b None ex Inl retry by simp
          then obtain evs2 where evs2: "tr' = (tr2 @ [AttemptDone (Inl err)]) @ evs2"
             "int (length (attemptResults evs2)) \<le> max 0 (MaxRetries cfg + 1 - (attempt + 1))"
             "(\<forall>r \<in> set (attemptResults evs2). \<exists>err. r = Inl err \<and> IsRetryable w (Some err))
                  \<and> (\<forall>c \<in> set (waitResults evs2). c = None)
                \<longrightarrow> int (length (attemptResults evs2))
                      = max 0 (MaxRetries cfg + 1 - (attempt + 1))
                  \<and> res = Inl (WrapError CodeTransactionFailed ''transfer failed after retries''
                        (lastObserved (Some err) (attemptResults evs2)))"
            by blast
          let ?evs = "evs0 @ evs1 @ [AttemptDone (Inl err)] @ evs2"
          have t: "tr' = tr @ ?evs" using evs0 evs1 evs2 by simp
          have a: "attemptResults ?evs = Inl err # attemptResults evs2"
            using evs0 evs1 by (simp add: attemptResults_append)
          have s: "set (waitResults evs2) \<subseteq> set (waitResults ?evs)"
            by (auto simp: waitResults_append)
          have l: "lastObserved lastErr (Inl err # attemptResults evs2)
                     = lastObserved (Some err) (attemptResults evs2)"
            by (simp add: lastObserved_def)
          show ?thesis
            using t a s l evs2(2,3) True
            by (intro exI [of _ ?evs]) (auto simp: max_def split: if_splits)
        qed
      qed
    qed
  qed
qed







text \<open>An error never is its own wrapper.\<close>

lemma no_self_wrap: "DomainError c m (Some err) \<noteq> err"
proof
  assume "DomainError c m (Some err) = err"
  then have "size (DomainError c m (Some err)) = size err" by simp
  then show False by simp
qed

text \<open>
  The text that \<open>executeTransfer\<close> puts in front of the cause of a failed \<open>BeginTx\<close>
  is ASCII, holds none of the four markers and ends in a blank, so, for a cause whose
  text is ASCII, the wrapped error is retryable exactly when the lower-cased text of
  the cause holds a marker.
\<close>

lemma Error_begin_wrap:
  "Error (WrapError CodeDatabaseError ''failed to begin transaction'' (Some cause))
   = ''database_error: failed to begin transaction: '' @ Error cause"
  by (simp add: WrapError_def)

lemma IsRetryable_begin_wrap:
  assumes "list_all isASCII (Error cause)"
  shows "IsRetryable w (Some (WrapError CodeDatabaseError ''failed to begin transaction''
                               (Some cause)))
         = (\<exists>p \<in> set patterns. Contains (map lower_char (Error cause)) p)"
  using assms
  by (simp add: IsRetryable_def WrapError_def ToLower_def patterns_def lower_char_def
        isASCII_def)

lemma ErrInsufficientBalance_fatal: "\<not> IsRetryable w (Some ErrInsufficientBalance)"
  by (simp add: IsRetryable_def ErrInsufficientBalance_def ToLower_def patterns_def
        lower_char_def isASCII_def)


section \<open>Validation\<close>

text \<open>
  C6. A request whose source and destination ids are equal is answered with
  \<open>ErrSameAccount\<close>, whatever the amount text, and the trace is returned as it was
  passed in: no transaction is begun, no lock is taken, nothing is written.
\<close>

theorem Transfer_same_account:
  assumes "ReqSourceAccountID req = ReqDestinationAccountID req"
  shows "Transfer w cfg req tr = (Inl ErrSameAccount, tr)"
  using assms by (simp add: Transfer_def)

theorem Transfer_same_account_witness:
  "Transfer (mockWorld testMocks) DefaultTransferConfig
     \<lparr>ReqSourceAccountID = 1, ReqDestinationAccountID = 1, ReqAmount = ''100.00''\<rparr> []
   = (Inl ErrSameAccount, [])"
  by (rule Transfer_same_account) simp

text \<open>
  C7. A request with distinct ids whose amount text is empty, or is refused by the
  decimal library, or denotes a value that is not positive, is answered with
  \<open>ErrInvalidAmount\<close>, and the trace is returned as it was passed in.
\<close>

theorem Transfer_invalid_amount:
  assumes "ReqSourceAccountID req \<noteq> ReqDestinationAccountID req"
    and "ReqAmount req = []
         \<or> (\<exists>err. NewFromString w (ReqAmount req) = Inl err)
         \<or> (\<exists>d. NewFromString w (ReqAmount req) = Inr d \<and> d \<le> 0)"
  shows "Transfer w cfg req tr = (Inl ErrInvalidAmount, tr)"
  using assms by (auto simp: Transfer_def ParseMoney_def split: sum.splits)

theorem Transfer_invalid_amount_witness:
  "Transfer (mockWorld testMocks) DefaultTransferConfig
     \<lparr>ReqSourceAccountID = 1, ReqDestinationAccountID = 2, ReqAmount = []\<rparr> []
     = (Inl ErrInvalidAmount, [])
   \<and> Transfer (mockWorld testMocks) DefaultTransferConfig
     \<lparr>ReqSourceAccountID = 1, ReqDestinationAccountID = 2, ReqAmount = ''abc''\<rparr> []
     = (Inl ErrInvalidAmount, [])
   \<and> Transfer (mockWorld testMocks) DefaultTransferConfig
     \<lparr>ReqSourceAccountID = 1, ReqDestinationAccountID = 2, ReqAmount = ''0''\<rparr> []
     = (Inl ErrInvalidAmount, [])
   \<and> Transfer (mockWorld testMocks) DefaultTransferConfig
     \<lparr>ReqSourceAccountID = 1, ReqDestinationAccountID = 2, ReqAmount = ''-5''\<rparr> []
     = (Inl ErrInvalidAmount, [])"
proof (intro conjI)
  show "Transfer (mockWorld testMocks) DefaultTransferConfig
     \<lparr>ReqSourceAccountID = 1, ReqDestinationAccountID = 2, ReqAmount = []\<rparr> []
     = (Inl ErrInvalidAmount, [])"
    by (rule Transfer_invalid_amount) simp_all
  show "Transfer (mockWorld testMocks) DefaultTransferConfig
     \<lparr>ReqSourceAccountID = 1, ReqDestinationAccountID = 2, ReqAmount = ''abc''\<rparr> []
     = (Inl ErrInvalidAmount, [])"
    by (rule Transfer_invalid_amount) (simp_all add: mockWorld_def testMocks_def)
  show "Transfer (mockWorld testMocks) DefaultTransferConfig
     \<lparr>ReqSourceAccountID = 1, ReqDestinationAccountID = 2, ReqAmount = ''0''\<rparr> []
     = (Inl ErrInvalidAmount, [])"
    by (rule Transfer_invalid_amount) (simp_all add: mockWorld_def testMocks_def)
  show "Transfer (mockWorld testMocks) DefaultTransferConfig
     \<lparr>ReqSourceAccountID = 1, ReqDestinationAccountID = 2, ReqAmount = ''-5''\<rparr> []
     = (Inl ErrInvalidAmount, [])"
    by (rule Transfer_invalid_amount) (simp_all add: mockWorld_def testMocks_def)
qed

section \<open>Paging of the transaction listing\<close>

text \<open>
  C9. \<open>GetAccountTransactions\<close> asks the repository once, with the limit 20 when the
  requested limit is not positive, 100 when it exceeds 100 and the requested limit
  otherwise, and with a negative offset replaced by 0. The answer of the repository is
  returned as it is; in particular an empty list is returned as a success.
\<close>

theorem GetAccountTransactions_paging:
  "GetAccountTransactions w accountID limit offset tr =
     (GetByAccountID w tr accountID
        (if limit \<le> 0 then 20 else if limit > 100 then 100 else limit)
        (if offset < 0 then 0 else offset),
      tr @ [GetByAccountIDCall accountID
              (if limit \<le> 0 then 20 else if limit > 100 then 100 else limit)
              (if offset < 0 then 0 else offset)
              (GetByAccountID w tr accountID
                 (if limit \<le> 0 then 20 else if limit > 100 then 100 else limit)
                 (if offset < 0 then 0 else offset))])
   \<and> (GetByAccountID w tr accountID
        (if limit \<le> 0 then 20 else if limit > 100 then 100 else limit)
        (if offset < 0 then 0 else offset) = Inr []
      \<longrightarrow> fst (GetAccountTransactions w accountID limit offset tr) = Inr [])"
  by (simp add: GetAccountTransactions_def DefaultPageSize_def MaxPageSize_def Let_def)

theorem GetAccountTransactions_paging_witness:
  "GetAccountTransactions (mockWorld testMocks) 1 0 (- 3) [] =
     (Inr [], [GetByAccountIDCall 1 20 0 (Inr [])])
   \<and> GetAccountTransactions (mockWorld testMocks) 1 500 7 [] =
     (Inr [], [GetByAccountIDCall 1 100 7 (Inr [])])
   \<and> GetAccountTransactions (mockWorld testMocks) 1 35 0 [] =
     (Inr [], [GetByAccountIDCall 1 35 0 (Inr [])])"
  using GetAccountTransactions_paging [of "mockWorld testMocks" 1 0 "- 3" "[]"]
    GetAccountTransactions_paging [of "mockWorld testMocks" 1 500 7 "[]"]
    GetAccountTransactions_paging [of "mockWorld testMocks" 1 35 0 "[]"]
  by (simp add: mockWorld_def testMocks_def)

section \<open>One attempt\<close>

text \<open>
  C1. In every attempt that reaches the balance writes, that calls \<open>Commit\<close> or that
  succeeds, both locks have returned an account, the value written for the source is
  its locked balance less the amount, the value written for the destination (once the
  first write has succeeded) is its locked balance plus the amount, and the two new
  balances add up to the two locked ones. \<open>Commit\<close> is called only after both writes
  have been made and answered without error, and an attempt succeeds exactly when its
  \<open>Commit\<close> was answered without error: a committed transfer has debited the source
  by the amount it has credited to the destination. Every attempt that has begun a
  store transaction ends with the call of \<open>Rollback\<close>.
\<close>

theorem executeTransfer_conservation:
  assumes run: "executeTransfer w sourceID destID amount tr = (res, tr @ evs)"
  shows "(balanceUpdates evs \<noteq> [] \<or> (\<exists>c. CommitCall c \<in> set evs) \<or> (\<exists>t. res = Inr t) \<longrightarrow>
          (\<exists>first second sourceAccount destAccount newSourceBalance newDestBalance.
             lockedAccounts evs = [first, second]
           \<and> sourceAccount = (if sourceID \<le> destID then first else second)
           \<and> destAccount = (if sourceID \<le> destID then second else first)
           \<and> newSourceBalance = Balance sourceAccount - amount
           \<and> newDestBalance = Balance destAccount + amount
           \<and> newSourceBalance + newDestBalance = Balance sourceAccount + Balance destAccount
           \<and> ((\<exists>err. balanceUpdates evs =
                   [(AccountID sourceAccount, newSourceBalance, Some err)])
              \<or> (\<exists>u. balanceUpdates evs =
                   [(AccountID sourceAccount, newSourceBalance, None),
                    (AccountID destAccount, newDestBalance, u)]))
           \<and> ((\<exists>c. CommitCall c \<in> set evs) \<or> (\<exists>t. res = Inr t) \<longrightarrow>
                 balanceUpdates evs =
                   [(AccountID sourceAccount, newSourceBalance, None),
                    (AccountID destAccount, newDestBalance, None)])))
       \<and> ((\<exists>t. res = Inr t) \<longleftrightarrow> CommitCall None \<in> set evs)
       \<and> ((\<exists>cause. evs = [BeginTxCall (Some cause)])
          \<or> (\<exists>calls rb. evs = BeginTxCall None # calls @ [RollbackCall rb]))"
  using assms
  unfolding executeTransfer_def deferredRollback_def Let_def
  by (auto split: option.splits sum.splits if_splits prod.splits)

theorem executeTransfer_conservation_witness:
  "executeTransfer (mockWorld testMocks) 1 2 100 [] =
     (Inr \<lparr>TransactionID = 1, SourceAccountID = 1, DestinationAccountID = 2, Amount = 100\<rparr>,
      [] @ [BeginTxCall None,
        GetByIDForUpdateCall 1 (Inr \<lparr>AccountID = 1, Balance = 1000\<rparr>),
        GetByIDForUpdateCall 2 (Inr \<lparr>AccountID = 2, Balance = 500\<rparr>),
        UpdateBalanceCall 1 900 None, UpdateBalanceCall 2 600 None,
        CreateCall \<lparr>TransactionID = 0, SourceAccountID = 1, DestinationAccountID = 2,
                    Amount = 100\<rparr> (Inr 1),
        CommitCall None, RollbackCall None])
   \<and> CommitCall None \<in> set [BeginTxCall None,
        GetByIDForUpdateCall 1 (Inr \<lparr>AccountID = 1, Balance = 1000\<rparr>),
        GetByIDForUpdateCall 2 (Inr \<lparr>AccountID = 2, Balance = 500\<rparr>),
        UpdateBalanceCall 1 900 None, UpdateBalanceCall 2 600 None,
        CreateCall \<lparr>TransactionID = 0, SourceAccountID = 1, DestinationAccountID = 2,
                    Amount = 100\<rparr> (Inr 1),
        CommitCall None, RollbackCall None]
   \<and> (\<exists>i1 b1 i2 b2. balanceUpdates [BeginTxCall None,
        GetByIDForUpdateCall 1 (Inr \<lparr>AccountID = 1, Balance = 1000\<rparr>),
        GetByIDForUpdateCall 2 (Inr \<lparr>AccountID = 2, Balance = 500\<rparr>),
        UpdateBalanceCall 1 900 None, UpdateBalanceCall 2 600 None,
        CreateCall \<lparr>TransactionID = 0, SourceAccountID = 1, DestinationAccountID = 2,
                    Amount = 100\<rparr> (Inr 1),
        CommitCall None, RollbackCall None] = [(i1, b1, None), (i2, b2, None)]
      \<and> b1 + b2 = 1000 + 500)"
proof -
  have run: "executeTransfer (mockWorld testMocks) 1 2 100 [] =
     (Inr \<lparr>TransactionID = 1, SourceAccountID = 1, DestinationAccountID = 2, Amount = 100\<rparr>,
      [] @ [BeginTxCall None,
        GetByIDForUpdateCall 1 (Inr \<lparr>AccountID = 1, Balance = 1000\<rparr>),
        GetByIDForUpdateCall 2 (Inr \<lparr>AccountID = 2, Balance = 500\<rparr>),
        UpdateBalanceCall 1 900 None, UpdateBalanceCall 2 600 None,
        CreateCall \<lparr>TransactionID = 0, SourceAccountID = 1, DestinationAccountID = 2,
                    Amount = 100\<rparr> (Inr 1),
        CommitCall None, RollbackCall None])"
    by code_simp
  show ?thesis
    using run executeTransfer_conservation [OF run] by simp
qed

text \<open>
  C3. In an attempt between two distinct ids the lock calls are made in ascending
  order of the ids: none when \<open>BeginTx\<close> fails, the smaller id alone when its lock
  fails, else the smaller id and then the larger one, whichever of them is the source.
  When both locks succeed, the account locked under the source id gets the source role
  and the one locked under the destination id the destination role: the sufficiency
  check reads the former, the debit goes to the former and the credit to the latter.
\<close>

theorem executeTransfer_lock_order:
  assumes distinct: "sourceID \<noteq> destID"
    and run: "executeTransfer w sourceID destID amount tr = (res, tr @ evs)"
  shows "(\<exists>cause. BeginTx w tr = Some cause \<and> lockCalls evs = [])
       \<or> (\<exists>err. lockCalls evs = [(min sourceID destID, Inl err)] \<and> res = Inl err)
       \<or> (\<exists>first err. lockCalls evs =
             [(min sourceID destID, Inr first), (max sourceID destID, Inl err)] \<and> res = Inl err)
       \<or> (\<exists>first second sourceAccount destAccount.
             lockCalls evs = [(min sourceID destID, Inr first), (max sourceID destID, Inr second)]
           \<and> map_of (lockCalls evs) sourceID = Some (Inr sourceAccount)
           \<and> map_of (lockCalls evs) destID = Some (Inr destAccount)
           \<and> (if Balance sourceAccount < amount
               then res = Inl ErrInsufficientBalance \<and> balanceUpdates evs = []
               else \<exists>u rest. balanceUpdates evs =
                      (AccountID sourceAccount, Balance sourceAccount - amount, u) # rest
                    \<and> (rest = [] \<or> (\<exists>u'. rest =
                          [(AccountID destAccount, Balance destAccount + amount, u')]))))"
  using assms
  unfolding executeTransfer_def deferredRollback_def Let_def
  by (auto split: option.splits sum.splits if_splits prod.splits simp: min_def max_def)

theorem executeTransfer_lock_order_witness:
  "(2::int) \<noteq> 1
   \<and> executeTransfer (mockWorld testMocks) 2 1 100 [] =
     (Inr \<lparr>TransactionID = 1, SourceAccountID = 2, DestinationAccountID = 1, Amount = 100\<rparr>,
      [] @ [BeginTxCall None,
        GetByIDForUpdateCall 1 (Inr \<lparr>AccountID = 1, Balance = 1000\<rparr>),
        GetByIDForUpdateCall 2 (Inr \<lparr>AccountID = 2, Balance = 500\<rparr>),
        UpdateBalanceCall 2 400 None, UpdateBalanceCall 1 1100 None,
        CreateCall \<lparr>TransactionID = 0, SourceAccountID = 2, DestinationAccountID = 1,
                    Amount = 100\<rparr> (Inr 1),
        CommitCall None, RollbackCall None])
   \<and> map fst (lockCalls [BeginTxCall None,
        GetByIDForUpdateCall 1 (Inr \<lparr>AccountID = 1, Balance = 1000\<rparr>),
        GetByIDForUpdateCall 2 (Inr \<lparr>AccountID = 2, Balance = 500\<rparr>),
        UpdateBalanceCall 2 400 None, UpdateBalanceCall 1 1100 None,
        CreateCall \<lparr>TransactionID = 0, SourceAccountID = 2, DestinationAccountID = 1,
                    Amount = 100\<rparr> (Inr 1),
        CommitCall None, RollbackCall None]) = [min 2 1, max 2 1]"
proof -
  have distinct: "(2::int) \<noteq> 1" by simp
  have run: "executeTransfer (mockWorld testMocks) 2 1 100 [] =
     (Inr \<lparr>TransactionID = 1, SourceAccountID = 2, DestinationAccountID = 1, Amount = 100\<rparr>,
      [] @ [BeginTxCall None,
        GetByIDForUpdateCall 1 (Inr \<lparr>AccountID = 1, Balance = 1000\<rparr>),
        GetByIDForUpdateCall 2 (Inr \<lparr>AccountID = 2, Balance = 500\<rparr>),
        UpdateBalanceCall 2 400 None, UpdateBalanceCall 1 1100 None,
        CreateCall \<lparr>TransactionID = 0, SourceAccountID = 2, DestinationAccountID = 1,
                    Amount = 100\<rparr> (Inr 1),
        CommitCall None, RollbackCall None])"
    by code_simp
  show ?thesis
    using distinct run executeTransfer_lock_order [OF distinct run] by simp
qed

text \<open>
  C5. When both locks have returned an account and the balance of the account in the
  source role is below the amount, the attempt returns \<open>ErrInsufficientBalance\<close>; it
  has made no balance write, no insert and no commit, and its last call is the
  rollback. The error is not retryable, and the round of the retry loop that ran the
  attempt returns it with the trace of that attempt: no further attempt is made.
\<close>

theorem insufficient_balance_fatal:
  assumes round: "attempt \<le> MaxRetries cfg"
    and waited: "backoff w cfg attempt tr = (None, tr1)"
    and run: "executeTransfer w sourceID destID amount tr1 = (res, tr1 @ evs)"
    and locked: "lockedAccounts evs = [first, second]"
    and low: "Balance (if sourceID \<le> destID then first else second) < amount"
  shows "res = Inl ErrInsufficientBalance
       \<and> (\<exists>rb. evs = [BeginTxCall None,
                  GetByIDForUpdateCall (min sourceID destID) (Inr first),
                  GetByIDForUpdateCall (max sourceID destID) (Inr second),
                  RollbackCall rb])
       \<and> balanceUpdates evs = []
       \<and> \<not> IsRetryable w (Some ErrInsufficientBalance)
       \<and> retryLoop w cfg sourceID destID amount attempt lastErr tr =
           (Inl ErrInsufficientBalance, tr1 @ evs @ [AttemptDone (Inl ErrInsufficientBalance)])"
proof -
  have fatal: "\<not> IsRetryable w (Some ErrInsufficientBalance)"
    by (rule ErrInsufficientBalance_fatal)
  from run locked low have res: "res = Inl ErrInsufficientBalance"
    unfolding executeTransfer_def deferredRollback_def Let_def
    by (auto split: option.splits sum.splits if_splits prod.splits)
  from run locked low have evs: "\<exists>rb. evs = [BeginTxCall None,
                  GetByIDForUpdateCall (min sourceID destID) (Inr first),
                  GetByIDForUpdateCall (max sourceID destID) (Inr second),
                  RollbackCall rb]"
    unfolding executeTransfer_def deferredRollback_def Let_def
    by (auto split: option.splits sum.splits if_splits prod.splits simp: min_def max_def)
  then have none: "balanceUpdates evs = []" by auto
  from run res have "executeTransfer w sourceID destID amount tr1
      = (Inl ErrInsufficientBalance, tr1 @ evs)" by simp
  from retryLoop_fatal [OF round waited this fatal]
  have "retryLoop w cfg sourceID destID amount attempt lastErr tr =
           (Inl ErrInsufficientBalance, tr1 @ evs @ [AttemptDone (Inl ErrInsufficientBalance)])"
    by simp
  with fatal res evs none show ?thesis by blast
qed

theorem insufficient_balance_fatal_witness:
  "0 \<le> MaxRetries DefaultTransferConfig
   \<and> backoff (mockWorld testMocks) DefaultTransferConfig 0 [] = (None, [])
   \<and> executeTransfer (mockWorld testMocks) 1 2 2000 [] =
       (Inl ErrInsufficientBalance,
        [] @ [BeginTxCall None,
          GetByIDForUpdateCall 1 (Inr \<lparr>AccountID = 1, Balance = 1000\<rparr>),
          GetByIDForUpdateCall 2 (Inr \<lparr>AccountID = 2, Balance = 500\<rparr>),
          RollbackCall None])
   \<and> retryLoop (mockWorld testMocks) DefaultTransferConfig 1 2 2000 0 None [] =
       (Inl ErrInsufficientBalance,
        [BeginTxCall None,
         GetByIDForUpdateCall 1 (Inr \<lparr>AccountID = 1, Balance = 1000\<rparr>),
         GetByIDForUpdateCall 2 (Inr \<lparr>AccountID = 2, Balance = 500\<rparr>),
         RollbackCall None, AttemptDone (Inl ErrInsufficientBalance)])"
proof -
  have round: "0 \<le> MaxRetries DefaultTransferConfig"
    by (simp add: DefaultTransferConfig_def)
  have waited: "backoff (mockWorld testMocks) DefaultTransferConfig 0 [] = (None, [])"
    by (simp add: backoff_def)
  have run: "executeTransfer (mockWorld testMocks) 1 2 2000 [] =
       (Inl ErrInsufficientBalance,
        [] @ [BeginTxCall None,
          GetByIDForUpdateCall 1 (Inr \<lparr>AccountID = 1, Balance = 1000\<rparr>),
          GetByIDForUpdateCall 2 (Inr \<lparr>AccountID = 2, Balance = 500\<rparr>),
          RollbackCall None])"
    by code_simp
  have locked: "lockedAccounts [BeginTxCall None,
          GetByIDForUpdateCall 1 (Inr \<lparr>AccountID = 1, Balance = 1000\<rparr>),
          GetByIDForUpdateCall 2 (Inr \<lparr>AccountID = 2, Balance = 500\<rparr>),
          RollbackCall None] = [\<lparr>AccountID = 1, Balance = 1000\<rparr>, \<lparr>AccountID = 2, Balance = 500\<rparr>]"
    by simp
  have low: "Balance (if (1::int) \<le> 2 then \<lparr>AccountID = 1, Balance = 1000\<rparr>
                      else \<lparr>AccountID = 2, Balance = 500\<rparr>) < 2000"
    by simp
  show ?thesis
    using round waited run
      insufficient_balance_fatal [OF round waited run locked low, of None]
    by simp
qed

text \<open>
  C10. Let the store begin the transaction and answer both locks with an account, the
  balance of the account in the source role being equal to the amount. Then the
  attempt does not fail with \<open>ErrInsufficientBalance\<close>: its next call writes the
  balance 0 for the source. If the store then answers that write, the write of the
  destination balance plus the amount, the insert of the transaction and the commit
  without error, the attempt makes exactly these calls, in this order and followed by
  the deferred rollback, and returns the recorded transaction.
\<close>

theorem executeTransfer_exact_balance:
  assumes begun: "BeginTx w tr = None"
    and tr1: "tr1 = tr @ [BeginTxCall None]"
    and lock1: "GetByIDForUpdate w tr1 (min sourceID destID) = Inr first"
    and tr2: "tr2 = tr1 @ [GetByIDForUpdateCall (min sourceID destID) (Inr first)]"
    and lock2: "GetByIDForUpdate w tr2 (max sourceID destID) = Inr second"
    and tr3: "tr3 = tr2 @ [GetByIDForUpdateCall (max sourceID destID) (Inr second)]"
    and source: "sourceAccount = (if sourceID \<le> destID then first else second)"
    and dest: "destAccount = (if sourceID \<le> destID then second else first)"
    and exact: "Balance sourceAccount = amount"
    and tr4: "tr4 = tr3 @ [UpdateBalanceCall (AccountID sourceAccount) 0 None]"
    and tr5: "tr5 = tr4 @ [UpdateBalanceCall (AccountID destAccount)
                            (Balance destAccount + amount) None]"
    and txn: "transaction = \<lparr>TransactionID = 0, SourceAccountID = sourceID,
                              DestinationAccountID = destID, Amount = amount\<rparr>"
    and tr6: "tr6 = tr5 @ [CreateCall transaction (Inr newID)]"
    and tr7: "tr7 = tr6 @ [CommitCall None]"
  shows "fst (executeTransfer w sourceID destID amount tr) \<noteq> Inl ErrInsufficientBalance
       \<and> (\<exists>rest. snd (executeTransfer w sourceID destID amount tr) =
             tr3 @ UpdateBalanceCall (AccountID sourceAccount) 0
                     (UpdateBalance w tr3 (AccountID sourceAccount) 0) # rest)
       \<and> (UpdateBalance w tr3 (AccountID sourceAccount) 0 = None
            \<and> UpdateBalance w tr4 (AccountID destAccount) (Balance destAccount + amount) = None
            \<and> Create w tr5 transaction = Inr newID
            \<and> Commit w tr6 = None
          \<longrightarrow> executeTransfer w sourceID destID amount tr =
                (Inr (transaction\<lparr>TransactionID := newID\<rparr>),
                 tr7 @ [RollbackCall (Rollback w tr7)]))"
proof (cases "sourceID \<le> destID")
  case True
  then have ids: "min sourceID destID = sourceID" "max sourceID destID = destID"
    "\<not> sourceID > destID"
    by simp_all
  from assms True show ?thesis
    unfolding executeTransfer_def deferredRollback_def Let_def ids
    by (auto split: option.splits sum.splits
          simp: WrapError_def ErrInsufficientBalance_def)
next
  case False
  then have ids: "min sourceID destID = destID" "max sourceID destID = sourceID"
    "sourceID > destID" "destID \<noteq> sourceID"
    by simp_all
  from assms False show ?thesis
    unfolding executeTransfer_def deferredRollback_def Let_def ids
    by (auto split: option.splits sum.splits
          simp: WrapError_def ErrInsufficientBalance_def)
qed

theorem executeTransfer_exact_balance_witness:
  "BeginTx (mockWorld testMocks) [] = None
   \<and> GetByIDForUpdate (mockWorld testMocks) ([] @ [BeginTxCall None]) (min 1 2)
       = Inr \<lparr>AccountID = 1, Balance = 1000\<rparr>
   \<and> GetByIDForUpdate (mockWorld testMocks)
         (([] @ [BeginTxCall None])
           @ [GetByIDForUpdateCall (min 1 2) (Inr \<lparr>AccountID = 1, Balance = 1000\<rparr>)])
         (max 1 2)
       = Inr \<lparr>AccountID = 2, Balance = 500\<rparr>
   \<and> Balance (if (1::int) \<le> 2 then \<lparr>AccountID = 1, Balance = 1000\<rparr>
                else \<lparr>AccountID = 2, Balance = 500\<rparr>) = 1000
   \<and> executeTransfer (mockWorld testMocks) 1 2 1000 [] =
     (Inr \<lparr>TransactionID = 1, SourceAccountID = 1, DestinationAccountID = 2, Amount = 1000\<rparr>,
      [BeginTxCall None,
       GetByIDForUpdateCall 1 (Inr \<lparr>AccountID = 1, Balance = 1000\<rparr>),
       GetByIDForUpdateCall 2 (Inr \<lparr>AccountID = 2, Balance = 500\<rparr>),
       UpdateBalanceCall 1 0 None, UpdateBalanceCall 2 1500 None,
       CreateCall \<lparr>TransactionID = 0, SourceAccountID = 1, DestinationAccountID = 2,
                   Amount = 1000\<rparr> (Inr 1),
       CommitCall None, RollbackCall None])"
proof -
  let ?w = "mockWorld testMocks"
  let ?a1 = "\<lparr>AccountID = 1, Balance = 1000\<rparr>"
  let ?a2 = "\<lparr>AccountID = 2, Balance = 500\<rparr>"
  have begun: "BeginTx ?w [] = None"
    by (simp add: mockWorld_def testMocks_def)
  have lock1: "GetByIDForUpdate ?w ([] @ [BeginTxCall None]) (min 1 2) = Inr ?a1"
    by (simp add: mockWorld_def testMocks_def)
  have lock2: "GetByIDForUpdate ?w
      (([] @ [BeginTxCall None]) @ [GetByIDForUpdateCall (min 1 2) (Inr ?a1)]) (max 1 2)
      = Inr ?a2"
    by (simp add: mockWorld_def testMocks_def)
  have exact: "Balance (if (1::int) \<le> 2 then ?a1 else ?a2) = 1000"
    by simp
  note claim = executeTransfer_exact_balance
    [OF begun refl lock1 refl lock2 refl refl refl exact refl refl refl refl refl, of 1]
  have "executeTransfer ?w 1 2 1000 [] =
     (Inr \<lparr>TransactionID = 1, SourceAccountID = 1, DestinationAccountID = 2, Amount = 1000\<rparr>,
      [BeginTxCall None, GetByIDForUpdateCall 1 (Inr ?a1), GetByIDForUpdateCall 2 (Inr ?a2),
       UpdateBalanceCall 1 0 None, UpdateBalanceCall 2 1500 None,
       CreateCall \<lparr>TransactionID = 0, SourceAccountID = 1, DestinationAccountID = 2,
                   Amount = 1000\<rparr> (Inr 1),
       CommitCall None, RollbackCall None])"
    using claim by (simp add: mockWorld_def testMocks_def)
  with begun lock1 lock2 exact show ?thesis by blast
qed

section \<open>The retry loop\<close>

text \<open>
  C2, as amended. When \<open>BeginTx\<close> fails, the attempt ends at once with a
  \<open>DatabaseError\<close> around the cause: no lock, write, insert, commit or rollback is
  called. The retry loop classifies this error like any other, by the text it prints,
  which is \<open>database_error: failed to begin transaction: \<close> followed by the text of
  the cause: if \<open>IsRetryable\<close> finds none of the markers \<open>deadlock\<close>,
  \<open>serialize\<close>, \<open>connection\<close>, \<open>timeout\<close> in that text, the loop returns the
  \<open>DatabaseError\<close> without a further attempt; if it finds one, the loop goes on to
  the next round, as after any transient failure. For a cause whose text is ASCII the
  error is retryable exactly when the text of the cause, with its letters in lower
  case, holds one of the markers.
\<close>

theorem begin_failure_classified_by_text:
  assumes round: "attempt \<le> MaxRetries cfg"
    and waited: "backoff w cfg attempt tr = (None, tr1)"
    and failed: "BeginTx w tr1 = Some cause"
  shows "executeTransfer w sourceID destID amount tr1 =
           (Inl (WrapError CodeDatabaseError ''failed to begin transaction'' (Some cause)),
            tr1 @ [BeginTxCall (Some cause)])
       \<and> Error (WrapError CodeDatabaseError ''failed to begin transaction'' (Some cause))
           = ''database_error: failed to begin transaction: '' @ Error cause
       \<and> (list_all isASCII (Error cause) \<longrightarrow>
            IsRetryable w (Some (WrapError CodeDatabaseError ''failed to begin transaction''
                                  (Some cause)))
            = (\<exists>p \<in> set patterns. Contains (map lower_char (Error cause)) p))
       \<and> (\<not> IsRetryable w (Some (WrapError CodeDatabaseError ''failed to begin transaction''
                                    (Some cause))) \<longrightarrow>
            retryLoop w cfg sourceID destID amount attempt lastErr tr =
              (Inl (WrapError CodeDatabaseError ''failed to begin transaction'' (Some cause)),
               tr1 @ [BeginTxCall (Some cause),
                      AttemptDone (Inl (WrapError CodeDatabaseError
                        ''failed to begin transaction'' (Some cause)))]))
       \<and> (IsRetryable w (Some (WrapError CodeDatabaseError ''failed to begin transaction''
                                  (Some cause))) \<longrightarrow>
            retryLoop w cfg sourceID destID amount attempt lastErr tr =
              retryLoop w cfg sourceID destID amount (attempt + 1)
                (Some (WrapError CodeDatabaseError ''failed to begin transaction'' (Some cause)))
                (tr1 @ [BeginTxCall (Some cause),
                        AttemptDone (Inl (WrapError CodeDatabaseError
                          ''failed to begin transaction'' (Some cause)))]))"
proof -
  let ?err = "WrapError CodeDatabaseError ''failed to begin transaction'' (Some cause)"
  from failed have run: "executeTransfer w sourceID destID amount tr1 =
      (Inl ?err, tr1 @ [BeginTxCall (Some cause)])"
    by (simp add: executeTransfer_def Let_def)
  have printed: "Error ?err = ''database_error: failed to begin transaction: '' @ Error cause"
    by (rule Error_begin_wrap)
  have cls: "IsRetryable w (Some ?err)
      = (\<exists>p \<in> set patterns. Contains (map lower_char (Error cause)) p)"
    if "list_all isASCII (Error cause)"
    using that by (rule IsRetryable_begin_wrap)
  have fatal: "retryLoop w cfg sourceID destID amount attempt lastErr tr =
      (Inl ?err, tr1 @ [BeginTxCall (Some cause), AttemptDone (Inl ?err)])"
    if "\<not> IsRetryable w (Some ?err)"
    using retryLoop_fatal [OF round waited run that, of lastErr] by simp
  have retry: "retryLoop w cfg sourceID destID amount attempt lastErr tr =
      retryLoop w cfg sourceID destID amount (attempt + 1) (Some ?err)
        (tr1 @ [BeginTxCall (Some cause), AttemptDone (Inl ?err)])"
    if "IsRetryable w (Some ?err)"
    using retryLoop_retry [OF round waited run that, of lastErr] by simp
  from run printed cls fatal retry show ?thesis by blast
qed

theorem begin_failure_classified_by_text_witness:
  "0 \<le> MaxRetries DefaultTransferConfig
   \<and> backoff (mockWorld (testMocks\<lparr>BeginTxError := Some (OtherError ''pool closed'')\<rparr>))
       DefaultTransferConfig 0 [] = (None, [])
   \<and> BeginTx (mockWorld (testMocks\<lparr>BeginTxError := Some (OtherError ''pool closed'')\<rparr>)) []
       = Some (OtherError ''pool closed'')
   \<and> list_all isASCII (Error (OtherError ''pool closed''))
   \<and> \<not> IsRetryable (mockWorld (testMocks\<lparr>BeginTxError := Some (OtherError ''pool closed'')\<rparr>))
         (Some (WrapError CodeDatabaseError ''failed to begin transaction''
                 (Some (OtherError ''pool closed''))))
   \<and> retryLoop (mockWorld (testMocks\<lparr>BeginTxError := Some (OtherError ''pool closed'')\<rparr>))
       DefaultTransferConfig 1 2 100 0 None [] =
       (Inl (WrapError CodeDatabaseError ''failed to begin transaction''
              (Some (OtherError ''pool closed''))),
        [BeginTxCall (Some (OtherError ''pool closed'')),
         AttemptDone (Inl (WrapError CodeDatabaseError ''failed to begin transaction''
              (Some (OtherError ''pool closed''))))])
   \<and> BeginTx (mockWorld (testMocks\<lparr>BeginTxError := Some (OtherError ''Connection reset'')\<rparr>)) []
       = Some (OtherError ''Connection reset'')
   \<and> list_all isASCII (Error (OtherError ''Connection reset''))
   \<and> IsRetryable (mockWorld (testMocks\<lparr>BeginTxError := Some (OtherError ''Connection reset'')\<rparr>))
         (Some (WrapError CodeDatabaseError ''failed to begin transaction''
                 (Some (OtherError ''Connection reset''))))
   \<and> retryLoop (mockWorld (testMocks\<lparr>BeginTxError := Some (OtherError ''Connection reset'')\<rparr>))
       DefaultTransferConfig 1 2 100 0 None [] =
     retryLoop (mockWorld (testMocks\<lparr>BeginTxError := Some (OtherError ''Connection reset'')\<rparr>))
       DefaultTransferConfig 1 2 100 (0 + 1)
       (Some (WrapError CodeDatabaseError ''failed to begin transaction''
               (Some (OtherError ''Connection reset''))))
       ([] @ [BeginTxCall (Some (OtherError ''Connection reset'')),
        AttemptDone (Inl (WrapError CodeDatabaseError ''failed to begin transaction''
              (Some (OtherError ''Connection reset''))))])"
proof -
  let ?closed = "mockWorld (testMocks\<lparr>BeginTxError := Some (OtherError ''pool closed'')\<rparr>)"
  let ?reset = "mockWorld (testMocks\<lparr>BeginTxError := Some (OtherError ''Connection reset'')\<rparr>)"
  have round: "0 \<le> MaxRetries DefaultTransferConfig"
    by (simp add: DefaultTransferConfig_def)
  have waited: "backoff ?closed DefaultTransferConfig 0 [] = (None, [])"
    by (simp add: backoff_def)
  have failed: "BeginTx ?closed [] = Some (OtherError ''pool closed'')"
    by (simp add: mockWorld_def)
  have ascii: "list_all isASCII (Error (OtherError ''pool closed''))"
    by (simp add: isASCII_def)
  note closed = begin_failure_classified_by_text [OF round waited failed, of 1 2 100 None]
  have none: "\<not> (\<exists>p \<in> set patterns.
      Contains (map lower_char (Error (OtherError ''pool closed''))) p)"
    by (simp add: patterns_def lower_char_def)
  from closed ascii none
  have fatal: "\<not> IsRetryable ?closed (Some (WrapError CodeDatabaseError
      ''failed to begin transaction'' (Some (OtherError ''pool closed''))))"
    by blast
  with closed
  have returned: "retryLoop ?closed DefaultTransferConfig 1 2 100 0 None [] =
       (Inl (WrapError CodeDatabaseError ''failed to begin transaction''
              (Some (OtherError ''pool closed''))),
        [] @ [BeginTxCall (Some (OtherError ''pool closed'')),
         AttemptDone (Inl (WrapError CodeDatabaseError ''failed to begin transaction''
              (Some (OtherError ''pool closed''))))])"
    by blast
  have waited': "backoff ?reset DefaultTransferConfig 0 [] = (None, [])"
    by (simp add: backoff_def)
  have failed': "BeginTx ?reset [] = Some (OtherError ''Connection reset'')"
    by (simp add: mockWorld_def)
  have ascii': "list_all isASCII (Error (OtherError ''Connection reset''))"
    by (simp add: isASCII_def)
  note reset = begin_failure_classified_by_text [OF round waited' failed', of 1 2 100 None]
  have some: "\<exists>p \<in> set patterns.
      Contains (map lower_char (Error (OtherError ''Connection reset''))) p"
    by (simp add: patterns_def lower_char_def)
  from reset ascii' some
  have transient: "IsRetryable ?reset (Some (WrapError CodeDatabaseError
      ''failed to begin transaction'' (Some (OtherError ''Connection reset''))))"
    by blast
  with reset
  have retried: "retryLoop ?reset DefaultTransferConfig 1 2 100 0 None [] =
     retryLoop ?reset DefaultTransferConfig 1 2 100 (0 + 1)
       (Some (WrapError CodeDatabaseError ''failed to begin transaction''
               (Some (OtherError ''Connection reset''))))
       ([] @ [BeginTxCall (Some (OtherError ''Connection reset'')),
        AttemptDone (Inl (WrapError CodeDatabaseError ''failed to begin transaction''
              (Some (OtherError ''Connection reset''))))])"
    by blast
  from returned have returned': "retryLoop ?closed DefaultTransferConfig 1 2 100 0 None [] =
       (Inl (WrapError CodeDatabaseError ''failed to begin transaction''
              (Some (OtherError ''pool closed''))),
        [BeginTxCall (Some (OtherError ''pool closed'')),
         AttemptDone (Inl (WrapError CodeDatabaseError ''failed to begin transaction''
              (Some (OtherError ''pool closed''))))])"
    by simp
  from round waited failed ascii fatal returned' failed' ascii' transient retried
  show ?thesis by blast
qed

text \<open>
  C2 as it was stated fails: a \<open>BeginTx\<close> error whose text mentions a refused
  connection is classified as retryable, \<open>BeginTx\<close> is called again after the backoff
  wait, and the caller receives \<open>TransactionFailed\<close> rather than the
  \<open>DatabaseError\<close>.
\<close>

theorem begin_failure_retried:
  "IsRetryable
     (mockWorld (testMocks\<lparr>BeginTxError :=
        Some (OtherError ''begin transaction: connection refused'')\<rparr>))
     (Some (WrapError CodeDatabaseError ''failed to begin transaction''
      (Some (OtherError ''begin transaction: connection refused''))))
   \<and> Transfer
       (mockWorld (testMocks\<lparr>BeginTxError :=
          Some (OtherError ''begin transaction: connection refused'')\<rparr>))
       (DefaultTransferConfig\<lparr>MaxRetries := 1\<rparr>)
       \<lparr>ReqSourceAccountID = 1, ReqDestinationAccountID = 2, ReqAmount = ''100.00''\<rparr> [] =
     (Inl (DomainError CodeTransactionFailed ''transfer failed after retries''
        (Some (DomainError CodeDatabaseError ''failed to begin transaction''
          (Some (OtherError ''begin transaction: connection refused''))))),
      [BeginTxCall (Some (OtherError ''begin transaction: connection refused'')),
       AttemptDone (Inl (DomainError CodeDatabaseError ''failed to begin transaction''
          (Some (OtherError ''begin transaction: connection refused'')))),
       Sleep 100000000 None,
       BeginTxCall (Some (OtherError ''begin transaction: connection refused'')),
       AttemptDone (Inl (DomainError CodeDatabaseError ''failed to begin transaction''
          (Some (OtherError ''begin transaction: connection refused''))))])"
  by code_simp

text \<open>
  C4. A transfer makes at most \<open>MaxRetries + 1\<close> attempts (none when \<open>MaxRetries\<close>
  is negative). When it has made an attempt, every attempt it made failed with a
  retryable error and no backoff wait was cut short by the context, then it has made
  exactly \<open>MaxRetries + 1\<close> attempts and returns \<open>TransactionFailed\<close> with the error of
  the last attempt as its cause, which is not that error itself.
\<close>

theorem Transfer_retries_exhausted:
  assumes run: "Transfer w cfg req tr = (res, tr @ evs)"
  shows "int (length (attemptResults evs)) \<le> max 0 (MaxRetries cfg + 1)
       \<and> (attemptResults evs \<noteq> []
           \<and> (\<forall>r \<in> set (attemptResults evs). \<exists>err. r = Inl err \<and> IsRetryable w (Some err))
           \<and> (\<forall>c \<in> set (waitResults evs). c = None)
          \<longrightarrow> int (length (attemptResults evs)) = MaxRetries cfg + 1
            \<and> (\<exists>err. last (attemptResults evs) = Inl err
                 \<and> res = Inl (WrapError CodeTransactionFailed ''transfer failed after retries''
                               (Some err))
                 \<and> res \<noteq> Inl err))"
proof (cases "attemptResults evs = []")
  case True
  then show ?thesis by simp
next
  case False
  with run obtain amount where
    loop: "retryLoop w cfg (ReqSourceAccountID req) (ReqDestinationAccountID req) amount 0 None tr
            = (res, tr @ evs)"
    by (auto simp: Transfer_def split: if_splits sum.splits)
  from retryLoop_exhaust [OF loop]
  have bound: "int (length (attemptResults evs)) \<le> max 0 (MaxRetries cfg + 1)"
    and exhausted: "(\<forall>r \<in> set (attemptResults evs). \<exists>err. r = Inl err \<and> IsRetryable w (Some err))
          \<and> (\<forall>c \<in> set (waitResults evs). c = None)
        \<longrightarrow> int (length (attemptResults evs)) = max 0 (MaxRetries cfg + 1)
          \<and> res = Inl (WrapError CodeTransactionFailed ''transfer failed after retries''
                        (lastObserved None (attemptResults evs)))"
    by auto
  from False bound have pos: "max 0 (MaxRetries cfg + 1) = MaxRetries cfg + 1"
    by (cases "attemptResults evs") (auto simp: max_def split: if_splits)
  have "\<exists>err. last (attemptResults evs) = Inl err
          \<and> res = Inl (WrapError CodeTransactionFailed ''transfer failed after retries''
                        (Some err))
          \<and> res \<noteq> Inl err"
    if all: "\<forall>r \<in> set (attemptResults evs). \<exists>err. r = Inl err \<and> IsRetryable w (Some err)"
      and none: "\<forall>c \<in> set (waitResults evs). c = None"
  proof -
    from False have "last (attemptResults evs) \<in> set (attemptResults evs)" by simp
    with all obtain err where err: "last (attemptResults evs) = Inl err" by blast
    with False have "lastObserved None (attemptResults evs) = Some err"
      by (simp add: lastObserved_def)
    with exhausted all none
    have "res = Inl (WrapError CodeTransactionFailed ''transfer failed after retries''
                      (Some err))"
      by simp
    with err show ?thesis by (auto simp: WrapError_def no_self_wrap)
  qed
  with bound exhausted pos show ?thesis by auto
qed

theorem Transfer_retries_exhausted_witness:
  "Transfer
     (mockWorld (testMocks\<lparr>GetByIDForUpdateError := Some (OtherError ''deadlock detected'')\<rparr>))
     (DefaultTransferConfig\<lparr>MaxRetries := 1\<rparr>)
     \<lparr>ReqSourceAccountID = 1, ReqDestinationAccountID = 2, ReqAmount = ''100.00''\<rparr> [] =
     (Inl (DomainError CodeTransactionFailed ''transfer failed after retries''
            (Some (OtherError ''deadlock detected''))),
      [] @ [BeginTxCall None,
        GetByIDForUpdateCall 1 (Inl (OtherError ''deadlock detected'')),
        RollbackCall None, AttemptDone (Inl (OtherError ''deadlock detected'')),
        Sleep 100000000 None, BeginTxCall None,
        GetByIDForUpdateCall 1 (Inl (OtherError ''deadlock detected'')),
        RollbackCall None, AttemptDone (Inl (OtherError ''deadlock detected''))])
   \<and> IsRetryable
       (mockWorld (testMocks\<lparr>GetByIDForUpdateError := Some (OtherError ''deadlock detected'')\<rparr>))
       (Some (OtherError ''deadlock detected''))
   \<and> int (length (attemptResults [BeginTxCall None,
        GetByIDForUpdateCall 1 (Inl (OtherError ''deadlock detected'')),
        RollbackCall None, AttemptDone (Inl (OtherError ''deadlock detected'')),
        Sleep 100000000 None, BeginTxCall None,
        GetByIDForUpdateCall 1 (Inl (OtherError ''deadlock detected'')),
        RollbackCall None, AttemptDone (Inl (OtherError ''deadlock detected''))]))
      = MaxRetries (DefaultTransferConfig\<lparr>MaxRetries := 1\<rparr>) + 1"
proof -
  have run: "Transfer
     (mockWorld (testMocks\<lparr>GetByIDForUpdateError := Some (OtherError ''deadlock detected'')\<rparr>))
     (DefaultTransferConfig\<lparr>MaxRetries := 1\<rparr>)
     \<lparr>ReqSourceAccountID = 1, ReqDestinationAccountID = 2, ReqAmount = ''100.00''\<rparr> [] =
     (Inl (DomainError CodeTransactionFailed ''transfer failed after retries''
            (Some (OtherError ''deadlock detected''))),
      [] @ [BeginTxCall None,
        GetByIDForUpdateCall 1 (Inl (OtherError ''deadlock detected'')),
        RollbackCall None, AttemptDone (Inl (OtherError ''deadlock detected'')),
        Sleep 100000000 None, BeginTxCall None,
        GetByIDForUpdateCall 1 (Inl (OtherError ''deadlock detected'')),
        RollbackCall None, AttemptDone (Inl (OtherError ''deadlock detected''))])"
    by code_simp
  have retryable: "IsRetryable
       (mockWorld (testMocks\<lparr>GetByIDForUpdateError := Some (OtherError ''deadlock detected'')\<rparr>))
       (Some (OtherError ''deadlock detected''))"
    by code_simp
  show ?thesis
    using run retryable Transfer_retries_exhausted [OF run] by simp
qed



end
